theory Spec2Isabelle
  imports Complex_Main
begin

unbundle bit_operations_syntax

section \<open>Scalars\<close>

text \<open>
  The library computes on C++ \<^verbatim>\<open>float\<close>. The embedding reads every float as a real
  number and every operation as the exact one, so rounding, overflow and NaN are outside
  the model. The two places where IEEE arithmetic decides a branch are written out: a
  quotient with divisor zero is infinite or NaN and therefore fails every range test
  \<^verbatim>\<open>t >= 0.0f && t <= 1.0f\<close>, and the compiler constants \<^verbatim>\<open>__FLT_MAX__\<close>,
  \<^verbatim>\<open>__FLT_MIN__\<close> and \<^verbatim>\<open>__DBL_EPSILON__\<close> have their IEEE values.
\<close>

definition FLT_MAX :: real where
  "FLT_MAX = 340282346638528859811704183484516925440"

definition FLT_MIN :: real where
  "FLT_MIN = 1 / 2 ^ 126"

definition DBL_EPSILON :: real where
  "DBL_EPSILON = 1 / 2 ^ 52"

text \<open>Utilities.hpp: \<^verbatim>\<open>Min\<close>, \<^verbatim>\<open>Max\<close>, \<^verbatim>\<open>PI\<close>, \<^verbatim>\<open>ToRadians\<close>.\<close>

definition Min_f :: "real \<Rightarrow> real \<Rightarrow> real" where
  "Min_f p_num p_min = (if p_num < p_min then p_num else p_min)"

definition Max_f :: "real \<Rightarrow> real \<Rightarrow> real" where
  "Max_f p_num p_max = (if p_num > p_max then p_num else p_max)"

definition PI :: real where
  "PI = 3141592653589793238462643383279502884 / 10 ^ 36"

definition ToRadians :: "real \<Rightarrow> real" where
  "ToRadians p_num = (p_num * PI) / 180"

section \<open>Vector3\<close>

record Vector3 =
  m_x :: real
  m_y :: real
  m_z :: real

definition Vec :: "real \<Rightarrow> real \<Rightarrow> real \<Rightarrow> Vector3" where
  "Vec x y z = \<lparr>m_x = x, m_y = y, m_z = z\<rparr>"

definition Forward :: Vector3 where "Forward = Vec 0 0 1"
definition Up :: Vector3 where "Up = Vec 0 1 0"
definition Right :: Vector3 where "Right = Vec 1 0 0"
definition Zero :: Vector3 where "Zero = Vec 0 0 0"

text \<open>\<^verbatim>\<open>Vector3(p_a, p_b)\<close>: the vector from the first point to the second.\<close>

definition Vec_between :: "Vector3 \<Rightarrow> Vector3 \<Rightarrow> Vector3" where
  "Vec_between p_a p_b = Vec (m_x p_b - m_x p_a) (m_y p_b - m_y p_a) (m_z p_b - m_z p_a)"

definition vadd :: "Vector3 \<Rightarrow> Vector3 \<Rightarrow> Vector3" where
  "vadd p_a p_b = Vec (m_x p_a + m_x p_b) (m_y p_a + m_y p_b) (m_z p_a + m_z p_b)"

definition vsub :: "Vector3 \<Rightarrow> Vector3 \<Rightarrow> Vector3" where
  "vsub p_a p_b = Vec (m_x p_a - m_x p_b) (m_y p_a - m_y p_b) (m_z p_a - m_z p_b)"

definition vneg :: "Vector3 \<Rightarrow> Vector3" where
  "vneg p_a = Vec (- m_x p_a) (- m_y p_a) (- m_z p_a)"

definition vadds :: "Vector3 \<Rightarrow> real \<Rightarrow> Vector3" where
  "vadds p_a p_k = Vec (m_x p_a + p_k) (m_y p_a + p_k) (m_z p_a + p_k)"

definition vmul :: "Vector3 \<Rightarrow> real \<Rightarrow> Vector3" where
  "vmul p_a p_k = Vec (m_x p_a * p_k) (m_y p_a * p_k) (m_z p_a * p_k)"

text \<open>
  \<^verbatim>\<open>operator/ (const Vector3&, const float)\<close> throws \<^verbatim>\<open>std::domain_error\<close> on a zero
  divisor: the error is the value \<open>None\<close>.
\<close>

definition vdivs :: "Vector3 \<Rightarrow> real \<Rightarrow> Vector3 option" where
  "vdivs p_a p_k =
     (if p_k = 0 then None
      else Some (Vec (m_x p_a / p_k) (m_y p_a / p_k) (m_z p_a / p_k)))"

text \<open>
  Every division of a vector in the embedded code has the literal divisor \<^verbatim>\<open>2.0f\<close>
  (\<^verbatim>\<open>p_size / 2.0f\<close>, \<^verbatim>\<open>m_direction * m_height / 2.0f\<close>), where the throwing branch
  is dead.
\<close>

definition vhalf :: "Vector3 \<Rightarrow> Vector3" where
  "vhalf p_a = (case vdivs p_a 2 of Some v \<Rightarrow> v | None \<Rightarrow> p_a)"

definition Dot :: "Vector3 \<Rightarrow> Vector3 \<Rightarrow> real" where
  "Dot p_a p_b = m_x p_a * m_x p_b + m_y p_a * m_y p_b + m_z p_a * m_z p_b"

definition DistanceSqr :: "Vector3 \<Rightarrow> Vector3 \<Rightarrow> real" where
  "DistanceSqr p_a p_b =
     (let x = m_x p_b - m_x p_a; y = m_y p_b - m_y p_a; z = m_z p_b - m_z p_a
      in x * x + y * y + z * z)"

definition GetMagnitude :: "Vector3 \<Rightarrow> real" where
  "GetMagnitude v = sqrt (m_x v * m_x v + m_y v * m_y v + m_z v * m_z v)"

definition GetSqrMagnitude :: "Vector3 \<Rightarrow> real" where
  "GetSqrMagnitude v = m_x v * m_x v + m_y v * m_y v + m_z v * m_z v"

definition GetNormalize :: "Vector3 \<Rightarrow> Vector3" where
  "GetNormalize v =
     (let len = sqrt (m_x v * m_x v + m_y v * m_y v + m_z v * m_z v)
      in if len = 0 then Zero else Vec (m_x v / len) (m_y v / len) (m_z v / len))"

definition Normalize :: "Vector3 \<Rightarrow> Vector3" where
  "Normalize v =
     (let len = sqrt (m_x v * m_x v + m_y v * m_y v + m_z v * m_z v)
      in if len \<noteq> 0 then Vec (m_x v / len) (m_y v / len) (m_z v / len) else v)"

text \<open>
  \<^verbatim>\<open>operator[]\<close> reads component 0, 1 or 2 and throws \<^verbatim>\<open>std::out_of_range\<close>
  otherwise. Every loop of the embedded code runs the index over 0, 1, 2, so the index
  type of the model is the list \<open>axes\<close> and \<open>vidx\<close> is read at its members only.
\<close>

definition axes :: "nat list" where
  "axes = [0, 1, 2]"

definition vidx :: "Vector3 \<Rightarrow> nat \<Rightarrow> real" where
  "vidx v i = (if i = 0 then m_x v else if i = 1 then m_y v else m_z v)"

definition vset :: "Vector3 \<Rightarrow> nat \<Rightarrow> real \<Rightarrow> Vector3" where
  "vset v i a =
     (if i = 0 then v\<lparr>m_x := a\<rparr> else if i = 1 then v\<lparr>m_y := a\<rparr> else v\<lparr>m_z := a\<rparr>)"

text \<open>\<^verbatim>\<open>operator==\<close> compares component-wise up to \<^verbatim>\<open>__DBL_EPSILON__\<close> squared.\<close>

definition vec_eq :: "Vector3 \<Rightarrow> Vector3 \<Rightarrow> bool" where
  "vec_eq p_a p_b =
     (let x = (m_x p_a - m_x p_b) * (m_x p_a - m_x p_b);
          y = (m_y p_a - m_y p_b) * (m_y p_a - m_y p_b);
          z = (m_z p_a - m_z p_b) * (m_z p_a - m_z p_b);
          epsilon = DBL_EPSILON * DBL_EPSILON
      in \<not> (x > epsilon \<or> y > epsilon \<or> z > epsilon))"

section \<open>Intersection\<close>

record Intersection =
  m_impact :: Vector3
  m_normal :: Vector3

definition Intersection_default :: Intersection where
  "Intersection_default = \<lparr>m_impact = Zero, m_normal = Zero\<rparr>"

definition Reset :: "Intersection \<Rightarrow> Intersection" where
  "Reset h = h\<lparr>m_impact := Vec 0 0 0, m_normal := Vec 0 0 0\<rparr>"

section \<open>AABB\<close>

record AABB =
  a_extents :: Vector3
  a_max :: Vector3
  a_min :: Vector3
  a_size :: Vector3
  a_origin :: Vector3

text \<open>\<^verbatim>\<open>AABB(p_origin, p_size)\<close>.\<close>

definition AABB_make :: "Vector3 \<Rightarrow> Vector3 \<Rightarrow> AABB" where
  "AABB_make p_origin p_size =
     \<lparr>a_extents = vhalf p_size,
      a_max = vadd p_origin (vhalf p_size),
      a_min = vsub p_origin (vhalf p_size),
      a_size = p_size,
      a_origin = p_origin\<rparr>"

definition ClosestPoint_axis :: "AABB \<Rightarrow> Vector3 \<Rightarrow> nat \<Rightarrow> real" where
  "ClosestPoint_axis b p_point i =
     (let val = vidx p_point i
      in if val < vidx (a_min b) i then vidx (a_min b) i
         else if val > vidx (a_max b) i then vidx (a_max b) i
         else val)"

definition ClosestPoint :: "AABB \<Rightarrow> Vector3 \<Rightarrow> Vector3" where
  "ClosestPoint b p_point =
     fold (\<lambda>i closestPoint. vset closestPoint i (ClosestPoint_axis b p_point i)) axes (Vec 0 0 0)"

definition Contains :: "AABB \<Rightarrow> Vector3 \<Rightarrow> bool" where
  "Contains b p_point =
     (m_x (a_min b) \<le> m_x p_point \<and> m_x p_point \<le> m_x (a_max b) \<and>
      m_y (a_min b) \<le> m_y p_point \<and> m_y p_point \<le> m_y (a_max b) \<and>
      m_z (a_min b) \<le> m_z p_point \<and> m_z p_point \<le> m_z (a_max b))"

definition Corner :: "AABB \<Rightarrow> int \<Rightarrow> Vector3" where
  "Corner b p_n =
     Vec (if p_n AND 1 \<noteq> 0 then m_x (a_max b) else m_x (a_min b))
         (if p_n AND 1 \<noteq> 0 then m_y (a_max b) else m_y (a_min b))
         (if p_n AND 1 \<noteq> 0 then m_z (a_max b) else m_z (a_min b))"

text \<open>\<^verbatim>\<open>Expand(const float)\<close>: \<^verbatim>\<open>m_size += p_amount * 2.0f; m_extents += p_amount\<close>.\<close>

definition Expand :: "AABB \<Rightarrow> real \<Rightarrow> AABB" where
  "Expand b p_amount =
     (let ext = vadds (a_extents b) p_amount
      in \<lparr>a_extents = ext,
          a_max = vadd (a_origin b) ext,
          a_min = vsub (a_origin b) ext,
          a_size = vadds (a_size b) (p_amount * 2),
          a_origin = a_origin b\<rparr>)"

definition GetExtents :: "AABB \<Rightarrow> Vector3" where "GetExtents b = a_extents b"
definition GetMax :: "AABB \<Rightarrow> Vector3" where "GetMax b = a_max b"
definition GetMin :: "AABB \<Rightarrow> Vector3" where "GetMin b = a_min b"

definition AABB_IsColliding :: "AABB \<Rightarrow> AABB \<Rightarrow> bool" where
  "AABB_IsColliding b p_other =
     (let otherExtents = GetExtents p_other
      in if m_x (a_origin b) - m_x (a_origin p_other) > m_x (a_extents b) + m_x otherExtents \<and>
            m_y (a_origin b) - m_y (a_origin p_other) > m_y (a_extents b) + m_y otherExtents \<and>
            m_z (a_origin b) - m_z (a_origin p_other) > m_z (a_extents b) + m_z otherExtents
         then False
         else True)"

text \<open>
  \<^verbatim>\<open>AABB::Normal\<close>: the loop keeps the smallest distance seen so far and the axis
  vector scaled by the local coordinate; the result is normalised.
\<close>

definition axis_vector :: "nat \<Rightarrow> Vector3" where
  "axis_vector i = (if i = 0 then Right else if i = 1 then Up else Forward)"

definition Normal_axis :: "AABB \<Rightarrow> Vector3 \<Rightarrow> nat \<Rightarrow> real \<times> Vector3 \<Rightarrow> real \<times> Vector3" where
  "Normal_axis b localPoint i st =
     (let distance = \<bar>vidx (a_extents b) i - \<bar>vidx localPoint i\<bar>\<bar>
      in if distance < fst st then (distance, vmul (axis_vector i) (vidx localPoint i))
         else st)"

definition Normal :: "AABB \<Rightarrow> Vector3 \<Rightarrow> Vector3" where
  "Normal b p_point =
     (let localPoint = vsub p_point (a_origin b)
      in GetNormalize (snd (fold (Normal_axis b localPoint) axes (FLT_MAX, Vec 0 0 0))))"

section \<open>Plane and Line\<close>

record Plane =
  pl_normal :: Vector3
  pl_distance :: real

text \<open>\<^verbatim>\<open>Plane(p_normal, p_point)\<close>: the distance is minus the dot product.\<close>

definition Plane_from_point :: "Vector3 \<Rightarrow> Vector3 \<Rightarrow> Plane" where
  "Plane_from_point p_normal p_point =
     \<lparr>pl_normal = p_normal, pl_distance = - Dot p_point p_normal\<rparr>"

definition GetSide :: "Plane \<Rightarrow> Vector3 \<Rightarrow> real" where
  "GetSide pl p_pt =
     m_x (pl_normal pl) * m_x p_pt + m_y (pl_normal pl) * m_y p_pt +
     m_z (pl_normal pl) * m_z p_pt + pl_distance pl"

record Line =
  l_origin :: Vector3
  l_direction :: Vector3

definition ClosestPointOnLine :: "Line \<Rightarrow> Vector3 \<Rightarrow> Vector3" where
  "ClosestPointOnLine line p_pt =
     vadd (l_origin line)
          (vmul (l_direction line) (Dot (Vec_between (l_origin line) p_pt) (l_direction line)))"

section \<open>Target shapes\<close>

record Sphere =
  s_origin :: Vector3
  s_radius :: real

record Cylinder =
  cy_origin :: Vector3
  cy_direction :: Vector3
  cy_height :: real
  cy_radius :: real

record InfiniteCylinder =
  ic_origin :: Vector3
  ic_direction :: Vector3
  ic_radius :: real

record Capsule =
  ca_origin :: Vector3
  ca_direction :: Vector3
  ca_height :: real
  ca_radius :: real

text \<open>\<^verbatim>\<open>Capsule(p_origin, p_target, p_radius)\<close>: the constructor with two points.\<close>

definition Capsule_from_points :: "Vector3 \<Rightarrow> Vector3 \<Rightarrow> real \<Rightarrow> Capsule" where
  "Capsule_from_points p_origin p_target p_radius =
     \<lparr>ca_origin = p_origin,
      ca_direction = Normalize (vsub p_target p_origin),
      ca_height = GetMagnitude (vsub p_target p_origin),
      ca_radius = p_radius\<rparr>"

section \<open>Linear probes\<close>

record Segment =
  m_ptA :: Vector3
  m_ptB :: Vector3

record Raycast =
  r_origin :: Vector3
  r_direction :: Vector3
  r_maxDistance :: real

definition GetAB :: "Segment \<Rightarrow> Vector3" where
  "GetAB sg = vsub (m_ptB sg) (m_ptA sg)"

text \<open>
  Every tester takes the caller's \<^verbatim>\<open>Intersection&\<close> and returns the boolean together
  with the record as the call leaves it.
\<close>

subsection \<open>Probe against a plane\<close>

definition Segment_IsIntersecting_Plane :: "Segment \<Rightarrow> Plane \<Rightarrow> Intersection \<Rightarrow> bool \<times> Intersection" where
  "Segment_IsIntersecting_Plane sg p_plane p_hit =
     (let segmentVector = vsub (m_ptB sg) (m_ptA sg);
          dot = Dot segmentVector (pl_normal p_plane)
      in if dot = 0 then (False, p_hit)
         else
           (let t = pl_distance p_plane - Dot (m_ptA sg) (pl_normal p_plane) / dot
            in if t \<ge> 0 \<and> t \<le> 1
               then (True, p_hit\<lparr>m_impact := vadd (m_ptA sg) (vmul segmentVector t),
                                 m_normal := (if dot > 0 then vneg (pl_normal p_plane)
                                              else pl_normal p_plane)\<rparr>)
               else (False, p_hit)))"

definition Raycast_IsIntersecting_Plane :: "Raycast \<Rightarrow> Plane \<Rightarrow> Intersection \<Rightarrow> bool \<times> Intersection" where
  "Raycast_IsIntersecting_Plane rc p_plane p_hit =
     (let ray = vmul (r_direction rc) (r_maxDistance rc);
          dot = Dot ray (pl_normal p_plane)
      in if dot = 0 then (False, p_hit)
         else
           (let t = pl_distance p_plane - Dot (r_origin rc) (pl_normal p_plane) / dot
            in if t \<ge> 0 \<and> t \<le> 1
               then (True, p_hit\<lparr>m_impact := vadd (r_origin rc) (vmul ray t),
                                 m_normal := (if dot > 0 then vneg (pl_normal p_plane)
                                              else pl_normal p_plane)\<rparr>)
               else (False, p_hit)))"

subsection \<open>Probe against an axis-aligned box\<close>

text \<open>
  One turn of the slab loop for axis \<open>i\<close>, from the running \<open>(tmin, tmax)\<close>: \<open>None\<close> is
  an early \<^verbatim>\<open>return false\<close>. The quotients \<open>t1\<close> and \<open>t2\<close> are read under the guard
  \<^verbatim>\<open>target[i] - origin[i] != 0.0f\<close> only. The loop bodies of the segment and of the
  ray are the same text over (\<^verbatim>\<open>m_ptA\<close>, \<^verbatim>\<open>m_ptB\<close>) and (\<^verbatim>\<open>m_origin\<close>, \<^verbatim>\<open>target\<close>).
\<close>

definition slab_axis :: "Vector3 \<Rightarrow> Vector3 \<Rightarrow> AABB \<Rightarrow> nat \<Rightarrow> real \<times> real \<Rightarrow> (real \<times> real) option" where
  "slab_axis p_from p_to p_aabb i tt =
     (let tmin = fst tt; tmax = snd tt;
          t1 = (vidx (GetMin p_aabb) i - vidx p_from i) / (vidx p_to i - vidx p_from i);
          t2 = (vidx (GetMax p_aabb) i - vidx p_from i) / (vidx p_to i - vidx p_from i)
      in if vidx p_to i - vidx p_from i \<noteq> 0
         then
           (let lo = (if t2 < t1 then t2 else t1);
                hi = (if t2 < t1 then t1 else t2)
            in if hi < tmin \<or> lo > tmax then None
               else if Max_f tmin lo > Min_f tmax hi then None
               else Some (Max_f tmin lo, Min_f tmax hi))
         else Some (tmin, tmax))"

fun slab_loop :: "Vector3 \<Rightarrow> Vector3 \<Rightarrow> AABB \<Rightarrow> nat list \<Rightarrow> real \<times> real \<Rightarrow> (real \<times> real) option" where
  "slab_loop p_from p_to p_aabb [] tt = Some tt"
| "slab_loop p_from p_to p_aabb (i # rest) tt =
     (case slab_axis p_from p_to p_aabb i tt of
        None \<Rightarrow> None
      | Some tt' \<Rightarrow> slab_loop p_from p_to p_aabb rest tt')"

definition Segment_IsIntersecting_AABB :: "Segment \<Rightarrow> AABB \<Rightarrow> Intersection \<Rightarrow> bool \<times> Intersection" where
  "Segment_IsIntersecting_AABB sg p_aabb p_hit =
     (case slab_loop (m_ptA sg) (m_ptB sg) p_aabb axes (0, 1) of
        None \<Rightarrow> (False, p_hit)
      | Some tt \<Rightarrow>
          if fst tt = 0 then (False, p_hit)
          else
            (let impact = vadd (m_ptA sg) (vmul (GetAB sg) (fst tt))
             in (True, p_hit\<lparr>m_impact := impact, m_normal := Normal p_aabb impact\<rparr>)))"

definition Raycast_IsIntersecting_AABB :: "Raycast \<Rightarrow> AABB \<Rightarrow> Intersection \<Rightarrow> bool \<times> Intersection" where
  "Raycast_IsIntersecting_AABB rc p_aabb p_hit =
     (let target = vadd (r_origin rc) (vmul (r_direction rc) (r_maxDistance rc))
      in case slab_loop (r_origin rc) target p_aabb axes (0, 1) of
           None \<Rightarrow> (False, p_hit)
         | Some tt \<Rightarrow>
             if fst tt = 0 then (False, p_hit)
             else
               (let impact = vadd (r_origin rc) (vmul (r_direction rc) (fst tt))
                in (True, p_hit\<lparr>m_impact := impact, m_normal := Normal p_aabb impact\<rparr>)))"

subsection \<open>Probe against a sphere\<close>

text \<open>
  \<^verbatim>\<open>float t ((-b - std::sqrt(delta)) / (2.0f * a))\<close>: with \<open>a = 0\<close> the quotient is
  infinite or NaN and the range test fails.
\<close>

definition Segment_IsIntersecting_Sphere :: "Segment \<Rightarrow> Sphere \<Rightarrow> Intersection \<Rightarrow> bool \<times> Intersection" where
  "Segment_IsIntersecting_Sphere sg p_sphere p_hit =
     (let segmentVector = vsub (m_ptB sg) (m_ptA sg);
          sphereVector = vsub (s_origin p_sphere) (m_ptA sg);
          a = GetSqrMagnitude segmentVector;
          b = 2 * Dot sphereVector segmentVector;
          c = GetSqrMagnitude sphereVector - s_radius p_sphere * s_radius p_sphere;
          delta = b * b - 4 * a * c
      in if delta < 0 then (False, p_hit)
         else
           (let t = (- b - sqrt delta) / (2 * a)
            in if 2 * a \<noteq> 0 \<and> t \<ge> 0 \<and> t \<le> 1
               then
                 (let impact = vadd (m_ptA sg) (vmul segmentVector t)
                  in (True, p_hit\<lparr>m_impact := impact,
                                    m_normal := GetNormalize (vsub impact (s_origin p_sphere))\<rparr>))
               else (False, p_hit)))"

definition Raycast_IsIntersecting_Sphere :: "Raycast \<Rightarrow> Sphere \<Rightarrow> Intersection \<Rightarrow> bool \<times> Intersection" where
  "Raycast_IsIntersecting_Sphere rc p_sphere p_hit =
     (let ray = vmul (r_direction rc) (r_maxDistance rc);
          sphereVector = vsub (s_origin p_sphere) (r_origin rc);
          a = GetSqrMagnitude ray;
          b = 2 * Dot sphereVector ray;
          c = GetSqrMagnitude sphereVector - s_radius p_sphere * s_radius p_sphere;
          delta = b * b - 4 * a * c
      in if delta < 0 then (False, p_hit)
         else
           (let t = (- b - sqrt delta) / (2 * a)
            in if 2 * a \<noteq> 0 \<and> t \<ge> 0 \<and> t \<le> 1
               then
                 (let impact = vadd (r_origin rc) (vmul ray t)
                  in (True, p_hit\<lparr>m_impact := impact,
                                    m_normal := GetNormalize (vsub impact (s_origin p_sphere))\<rparr>))
               else (False, p_hit)))"

subsection \<open>Probe against cylinders and capsules\<close>

text \<open>
  A cap branch of the finite cylinder, entered when the probe starts beyond the cap's
  plane, from the result of the plane test: true when the plane is hit inside the disc;
  false when the plane is missed; and when the plane is hit outside the disc the code
  leaves the branch and goes on to the next test (\<open>continue\<close>) with the record as the plane
  test wrote it.
\<close>

definition cap_branch :: "bool \<times> Intersection \<Rightarrow> Vector3 \<Rightarrow> real \<Rightarrow> (Intersection \<Rightarrow> bool \<times> Intersection) \<Rightarrow> bool \<times> Intersection" where
  "cap_branch planeResult capCentre radiusSqr continue =
     (if fst planeResult
      then (if DistanceSqr (m_impact (snd planeResult)) capCentre \<le> radiusSqr
            then (True, snd planeResult)
            else continue (snd planeResult))
      else (False, snd planeResult))"

text \<open>
  The capsule runs its sub-tests in sequence on the same record, each as
  \<^verbatim>\<open>if (IsIntersecting(..., p_hit)) return true;\<close>, and ends with \<^verbatim>\<open>return false\<close>.
\<close>

fun first_hit :: "(Intersection \<Rightarrow> bool \<times> Intersection) list \<Rightarrow> Intersection \<Rightarrow> bool \<times> Intersection" where
  "first_hit [] p_hit = (False, p_hit)"
| "first_hit (test # rest) p_hit =
     (if fst (test p_hit) then (True, snd (test p_hit)) else first_hit rest (snd (test p_hit)))"

definition Segment_IsIntersecting_InfiniteCylinder :: "Segment \<Rightarrow> InfiniteCylinder \<Rightarrow> Intersection \<Rightarrow> bool \<times> Intersection" where
  "Segment_IsIntersecting_InfiniteCylinder sg p_cylinder p_hit =
     (let segmentVector = vsub (m_ptB sg) (m_ptA sg);
          cylinderToSegment = vsub (m_ptA sg) (ic_origin p_cylinder);
          direction = ic_direction p_cylinder;
          dot1 = Dot segmentVector direction;
          dot2 = Dot cylinderToSegment direction;
          a = GetSqrMagnitude segmentVector - dot1 * dot1;
          b = 2 * Dot cylinderToSegment segmentVector - 2 * dot1 * dot2;
          c = GetSqrMagnitude cylinderToSegment - dot2 * dot2 -
              ic_radius p_cylinder * ic_radius p_cylinder;
          delta = b * b - 4 * a * c
      in if delta < 0 then (False, p_hit)
         else
           (let t = (- b - sqrt delta) / (2 * a)
            in if 2 * a \<noteq> 0 \<and> t \<ge> 0 \<and> t \<le> 1
               then
                 (let impact = vadd (m_ptA sg) (vmul segmentVector t);
                      axis = \<lparr>l_origin = ic_origin p_cylinder, l_direction = ic_direction p_cylinder\<rparr>
                  in (True, p_hit\<lparr>m_impact := impact,
                                    m_normal := GetNormalize (vsub impact (ClosestPointOnLine axis impact))\<rparr>))
               else (False, p_hit)))"

definition Segment_IsIntersecting_Cylinder :: "Segment \<Rightarrow> Cylinder \<Rightarrow> Intersection \<Rightarrow> bool \<times> Intersection" where
  "Segment_IsIntersecting_Cylinder sg p_cylinder p_hit =
     (let pointP = vadd (cy_origin p_cylinder) (vhalf (vmul (cy_direction p_cylinder) (cy_height p_cylinder)));
          pointQ = vsub (cy_origin p_cylinder) (vhalf (vmul (cy_direction p_cylinder) (cy_height p_cylinder)));
          planeP = Plane_from_point (cy_direction p_cylinder) pointP;
          planeQ = Plane_from_point (vneg (cy_direction p_cylinder)) pointQ;
          radiusSqr = cy_radius p_cylinder * cy_radius p_cylinder;
          inside = (\<lambda>h. Segment_IsIntersecting_InfiniteCylinder sg
                      \<lparr>ic_origin = cy_origin p_cylinder, ic_direction = cy_direction p_cylinder,
                       ic_radius = cy_radius p_cylinder\<rparr> h);
          sideQ = (\<lambda>h. if GetSide planeQ (m_ptA sg) \<ge> 0
                     then cap_branch (Segment_IsIntersecting_Plane sg planeQ h) pointQ radiusSqr inside
                     else inside h)
      in if GetSide planeP (m_ptB sg) \<ge> 0 \<or> GetSide planeQ (m_ptB sg) \<ge> 0 then (False, p_hit)
         else if GetSide planeP (m_ptA sg) \<ge> 0
         then cap_branch (Segment_IsIntersecting_Plane sg planeP p_hit) pointP radiusSqr sideQ
         else sideQ p_hit)"

definition Segment_IsIntersecting_Capsule :: "Segment \<Rightarrow> Capsule \<Rightarrow> Intersection \<Rightarrow> bool \<times> Intersection" where
  "Segment_IsIntersecting_Capsule sg p_capsule p_hit =
     (let pointP = vadd (ca_origin p_capsule) (vhalf (vmul (ca_direction p_capsule) (ca_height p_capsule)));
          pointQ = vsub (ca_origin p_capsule) (vhalf (vmul (ca_direction p_capsule) (ca_height p_capsule)));
          planeP = Plane_from_point (ca_direction p_capsule) pointP;
          planeQ = Plane_from_point (vneg (ca_direction p_capsule)) pointQ;
          sphereP = (\<lambda>h. Segment_IsIntersecting_Sphere sg \<lparr>s_origin = pointP, s_radius = ca_radius p_capsule\<rparr> h);
          sphereQ = (\<lambda>h. Segment_IsIntersecting_Sphere sg \<lparr>s_origin = pointQ, s_radius = ca_radius p_capsule\<rparr> h);
          body = (\<lambda>h. Segment_IsIntersecting_Cylinder sg
                    \<lparr>cy_origin = ca_origin p_capsule, cy_direction = ca_direction p_capsule,
                     cy_height = ca_height p_capsule, cy_radius = ca_radius p_capsule\<rparr> h)
      in if GetSide planeP (m_ptA sg) \<ge> 0 then first_hit [sphereP, body, sphereQ] p_hit
         else if GetSide planeQ (m_ptA sg) \<ge> 0 then first_hit [sphereQ, body, sphereP] p_hit
         else first_hit [body, sphereP, sphereQ] p_hit)"

definition Raycast_IsIntersecting_InfiniteCylinder :: "Raycast \<Rightarrow> InfiniteCylinder \<Rightarrow> Intersection \<Rightarrow> bool \<times> Intersection" where
  "Raycast_IsIntersecting_InfiniteCylinder rc p_cylinder p_hit =
     (let ray = vmul (r_direction rc) (r_maxDistance rc);
          cylinderToSegment = vsub (r_origin rc) (ic_origin p_cylinder);
          direction = ic_direction p_cylinder;
          dot1 = Dot ray direction;
          dot2 = Dot cylinderToSegment direction;
          a = GetSqrMagnitude ray - dot1 * dot1;
          b = 2 * Dot cylinderToSegment ray - 2 * dot1 * dot2;
          c = GetSqrMagnitude cylinderToSegment - dot2 * dot2 -
              ic_radius p_cylinder * ic_radius p_cylinder;
          delta = b * b - 4 * a * c
      in if delta < 0 then (False, p_hit)
         else
           (let t = (- b - sqrt delta) / (2 * a)
            in if 2 * a \<noteq> 0 \<and> t \<ge> 0 \<and> t \<le> 1
               then
                 (let impact = vadd (r_origin rc) (vmul ray t);
                      axis = \<lparr>l_origin = ic_origin p_cylinder, l_direction = ic_direction p_cylinder\<rparr>
                  in (True, p_hit\<lparr>m_impact := impact,
                                    m_normal := GetNormalize (vsub impact (ClosestPointOnLine axis impact))\<rparr>))
               else (False, p_hit)))"

definition Raycast_IsIntersecting_Cylinder :: "Raycast \<Rightarrow> Cylinder \<Rightarrow> Intersection \<Rightarrow> bool \<times> Intersection" where
  "Raycast_IsIntersecting_Cylinder rc p_cylinder p_hit =
     (let ray = vmul (r_direction rc) (r_maxDistance rc);
          target = vadd (r_origin rc) ray;
          pointP = vadd (cy_origin p_cylinder) (vhalf (vmul (cy_direction p_cylinder) (cy_height p_cylinder)));
          pointQ = vsub (cy_origin p_cylinder) (vhalf (vmul (cy_direction p_cylinder) (cy_height p_cylinder)));
          planeP = Plane_from_point (cy_direction p_cylinder) pointP;
          planeQ = Plane_from_point (vneg (cy_direction p_cylinder)) pointQ;
          radiusSqr = cy_radius p_cylinder * cy_radius p_cylinder;
          inside = (\<lambda>h. Raycast_IsIntersecting_InfiniteCylinder rc
                      \<lparr>ic_origin = cy_origin p_cylinder, ic_direction = cy_direction p_cylinder,
                       ic_radius = cy_radius p_cylinder\<rparr> h);
          sideQ = (\<lambda>h. if GetSide planeQ (r_origin rc) \<ge> 0
                     then cap_branch (Raycast_IsIntersecting_Plane rc planeQ h) pointQ radiusSqr inside
                     else inside h)
      in if GetSide planeP (target) \<ge> 0 \<or> GetSide planeQ (target) \<ge> 0 then (False, p_hit)
         else if GetSide planeP (r_origin rc) \<ge> 0
         then cap_branch (Raycast_IsIntersecting_Plane rc planeP p_hit) pointP radiusSqr sideQ
         else sideQ p_hit)"

definition Raycast_IsIntersecting_Capsule :: "Raycast \<Rightarrow> Capsule \<Rightarrow> Intersection \<Rightarrow> bool \<times> Intersection" where
  "Raycast_IsIntersecting_Capsule rc p_capsule p_hit =
     (let pointP = vadd (ca_origin p_capsule) (vhalf (vmul (ca_direction p_capsule) (ca_height p_capsule)));
          pointQ = vsub (ca_origin p_capsule) (vhalf (vmul (ca_direction p_capsule) (ca_height p_capsule)));
          planeP = Plane_from_point (ca_direction p_capsule) pointP;
          planeQ = Plane_from_point (vneg (ca_direction p_capsule)) pointQ;
          sphereP = (\<lambda>h. Raycast_IsIntersecting_Sphere rc \<lparr>s_origin = pointP, s_radius = ca_radius p_capsule\<rparr> h);
          sphereQ = (\<lambda>h. Raycast_IsIntersecting_Sphere rc \<lparr>s_origin = pointQ, s_radius = ca_radius p_capsule\<rparr> h);
          body = (\<lambda>h. Raycast_IsIntersecting_Cylinder rc
                    \<lparr>cy_origin = ca_origin p_capsule, cy_direction = ca_direction p_capsule,
                     cy_height = ca_height p_capsule, cy_radius = ca_radius p_capsule\<rparr> h)
      in if GetSide planeP (r_origin rc) \<ge> 0 then first_hit [sphereP, body, sphereQ] p_hit
         else if GetSide planeQ (r_origin rc) \<ge> 0 then first_hit [sphereQ, body, sphereP] p_hit
         else first_hit [body, sphereP, sphereQ] p_hit)"

section \<open>Rotations\<close>

record Quaternion =
  q_x :: real
  q_y :: real
  q_z :: real
  q_w :: real

definition Euler :: "Vector3 \<Rightarrow> Quaternion" where
  "Euler p_eulerRotation =
     (let hx = ToRadians (m_x p_eulerRotation * (1 / 2));
          hy = ToRadians (m_y p_eulerRotation * (1 / 2));
          hz = ToRadians (m_z p_eulerRotation * (1 / 2));
          cosX = cos hx; cosY = cos hy; cosZ = cos hz;
          sinX = sin hx; sinY = sin hy; sinZ = sin hz
      in \<lparr>q_x = sinX * cosY * cosZ + cosX * sinY * sinZ,
          q_y = cosX * sinY * cosZ - sinX * cosY * sinZ,
          q_z = cosX * cosY * sinZ - sinX * sinY * cosZ,
          q_w = cosX * cosY * cosZ + sinX * sinY * sinZ\<rparr>)"

text \<open>
  \<^verbatim>\<open>Matrix4x4\<close> by its sixteen-argument constructor: \<open>mRC\<close> is the entry that
  \<^verbatim>\<open>operator()(R, C)\<close> reads.
\<close>

record Matrix4x4 =
  m00 :: real  m01 :: real  m02 :: real  m03 :: real
  m10 :: real  m11 :: real  m12 :: real  m13 :: real
  m20 :: real  m21 :: real  m22 :: real  m23 :: real
  m30 :: real  m31 :: real  m32 :: real  m33 :: real

definition Rotate :: "Quaternion \<Rightarrow> Matrix4x4" where
  "Rotate p_q =
     (let sqrX = q_x p_q * q_x p_q; sqrY = q_y p_q * q_y p_q; sqrZ = q_z p_q * q_z p_q
      in \<lparr>m00 = 1 - 2 * (sqrY + sqrZ),
          m01 = 2 * (q_x p_q * q_y p_q - q_z p_q * q_w p_q),
          m02 = 2 * (q_x p_q * q_z p_q + q_y p_q * q_w p_q),
          m03 = 0,
          m10 = 2 * (q_x p_q * q_y p_q + q_z p_q * q_w p_q),
          m11 = 1 - 2 * (sqrX + sqrZ),
          m12 = 2 * (q_y p_q * q_z p_q - q_x p_q * q_w p_q),
          m13 = 0,
          m20 = 2 * (q_x p_q * q_z p_q - q_y p_q * q_w p_q),
          m21 = 2 * (q_y p_q * q_z p_q + q_x p_q * q_w p_q),
          m22 = 1 - 2 * (sqrX + sqrY),
          m23 = 0,
          m30 = 0, m31 = 0, m32 = 0, m33 = 1\<rparr>)"

text \<open>
  \<^verbatim>\<open>operator* (const Matrix4x4&, const Vector3&)\<close> divides by the homogeneous
  coordinate \<open>w\<close>; the division throws on \<open>w = 0\<close>.
\<close>

definition Matrix_mul_Vector3 :: "Matrix4x4 \<Rightarrow> Vector3 \<Rightarrow> Vector3 option" where
  "Matrix_mul_Vector3 p_m p_v =
     (let w = m30 p_m * m_x p_v + m31 p_m * m_y p_v + m32 p_m * m_z p_v + m33 p_m
      in vdivs (Vec (m00 p_m * m_x p_v + m01 p_m * m_y p_v + m02 p_m * m_z p_v + m03 p_m)
                    (m10 p_m * m_x p_v + m11 p_m * m_y p_v + m12 p_m * m_z p_v + m13 p_m)
                    (m20 p_m * m_x p_v + m21 p_m * m_y p_v + m22 p_m * m_z p_v + m23 p_m)) w)"

text \<open>
  \<^verbatim>\<open>Matrix4x4::Rotate(Quaternion::Euler(angle)) * v\<close>. The last row of a rotation
  matrix is \<open>(0, 0, 0, 1)\<close>, so \<open>w = 1\<close> and the throwing branch is dead (lemma
  \<open>Rotate_mul_total\<close> below).
\<close>

definition rotate_by :: "Vector3 \<Rightarrow> Vector3 \<Rightarrow> Vector3" where
  "rotate_by p_angle p_v =
     (case Matrix_mul_Vector3 (Rotate (Euler p_angle)) p_v of Some r \<Rightarrow> r | None \<Rightarrow> p_v)"

section \<open>OBB and Range\<close>

record OBB =
  o_origin :: Vector3
  o_extents :: Vector3
  o_angle :: Vector3

definition OBB_GetVertices :: "OBB \<Rightarrow> Vector3 list" where
  "OBB_GetVertices b =
     (let ex = m_x (o_extents b); ey = m_y (o_extents b); ez = m_z (o_extents b);
          vertex = (\<lambda>x y z. vadd (o_origin b) (rotate_by (o_angle b) (Vec x y z)))
      in [vertex (- ex) ey ez,
          vertex ex ey ez,
          vertex (- ex) (- ey) ez,
          vertex ex (- ey) ez,
          vertex ex ey (- ez),
          vertex (- ex) ey (- ez),
          vertex ex (- ey) (- ez),
          vertex (- ex) (- ey) (- ez)])"

record Range =
  rg_min :: real
  rg_max :: real

definition SAT_step :: "Vector3 \<Rightarrow> Vector3 \<Rightarrow> Range \<Rightarrow> Range" where
  "SAT_step p_vector vertex rng =
     (let dot = Dot p_vector vertex
      in \<lparr>rg_min = Min_f (rg_min rng) dot, rg_max = Max_f (rg_max rng) dot\<rparr>)"

definition SAT :: "Vector3 \<Rightarrow> OBB \<Rightarrow> Range" where
  "SAT p_vector p_obb =
     fold (SAT_step p_vector) (OBB_GetVertices p_obb) \<lparr>rg_min = FLT_MAX, rg_max = FLT_MIN\<rparr>"

section \<open>Swept sphere against an AABB\<close>

text \<open>The region codes \<open>u\<close> (below the minimum) and \<open>v\<close> (above the maximum).\<close>

definition region_u :: "AABB \<Rightarrow> Vector3 \<Rightarrow> int" where
  "region_u p_aabb impact =
     (let u0 = 0;
          u1 = (if m_x impact < m_x (GetMin p_aabb) then u0 OR 1 else u0);
          u2 = (if m_y impact < m_y (GetMin p_aabb) then u1 OR 2 else u1);
          u3 = (if m_z impact < m_z (GetMin p_aabb) then u2 OR 4 else u2)
      in u3)"

definition region_v :: "AABB \<Rightarrow> Vector3 \<Rightarrow> int" where
  "region_v p_aabb impact =
     (let v0 = 0;
          v1 = (if m_x impact > m_x (GetMax p_aabb) then v0 OR 1 else v0);
          v2 = (if m_y impact > m_y (GetMax p_aabb) then v1 OR 2 else v1);
          v3 = (if m_z impact > m_z (GetMax p_aabb) then v2 OR 4 else v2)
      in v3)"

text \<open>
  One candidate capsule of the vertex region: the temporary record \<open>tmpHit\<close> is shared by
  the three tests, and the result replaces \<open>p_hit\<close> when it is strictly nearer to the
  sphere's origin. The state is \<open>(tmpHit, p_hit)\<close>.
\<close>

definition vertex_candidate :: "Segment \<Rightarrow> Vector3 \<Rightarrow> Capsule \<Rightarrow> Intersection \<times> Intersection \<Rightarrow> Intersection \<times> Intersection" where
  "vertex_candidate movement origin capsule st =
     (let r = Segment_IsIntersecting_Capsule movement capsule (fst st)
      in if fst r \<and>
            DistanceSqr origin (m_impact (snd r)) < DistanceSqr origin (m_impact (snd st))
         then (snd r, snd r)
         else (snd r, snd st))"

definition IsMovingSphereColliding :: "Sphere \<Rightarrow> AABB \<Rightarrow> Vector3 \<Rightarrow> Intersection \<Rightarrow> bool \<times> Intersection" where
  "IsMovingSphereColliding sph p_aabb p_speed p_hit =
     (let expandedAABB = Expand p_aabb (s_radius sph);
          movement = \<lparr>m_ptA = s_origin sph, m_ptB = vadd (s_origin sph) p_speed\<rparr>;
          raw = Segment_IsIntersecting_AABB movement expandedAABB p_hit
      in if \<not> fst raw then (False, snd raw)
         else
           (let u = region_u p_aabb (m_impact (snd raw));
                v = region_v p_aabb (m_impact (snd raw));
                m = u + v
            in if m = 7
               then
                 (let start = (Intersection_default,
                               (snd raw)\<lparr>m_impact := Vec FLT_MAX FLT_MAX FLT_MAX\<rparr>);
                      c1 = Capsule_from_points (Corner p_aabb v) (Corner p_aabb (v XOR 1)) (s_radius sph);
                      c2 = Capsule_from_points (Corner p_aabb v) (Corner p_aabb (v XOR 2)) (s_radius sph);
                      c3 = Capsule_from_points (Corner p_aabb v) (Corner p_aabb (v XOR 4)) (s_radius sph);
                      final = snd (fold (vertex_candidate movement (s_origin sph)) [c1, c2, c3] start)
                  in if vec_eq (m_impact final) (Vec FLT_MAX FLT_MAX FLT_MAX)
                     then (False, Reset final)
                     else (True, final))
               else if m AND (m - 1) = 0
               then (True, (snd raw)\<lparr>m_impact := ClosestPoint p_aabb (m_impact (snd raw))\<rparr>)
               else Segment_IsIntersecting_Capsule movement
                      (Capsule_from_points (Corner p_aabb (u XOR 7)) (Corner p_aabb v) (s_radius sph))
                      (snd raw)))"

section \<open>Auxiliary facts\<close>

lemmas vec_defs =
  Vec_def vadd_def vsub_def vneg_def vmul_def vadds_def vhalf_def vdivs_def Dot_def
  DistanceSqr_def GetSqrMagnitude_def GetMagnitude_def Vec_between_def Zero_def
  Forward_def Up_def Right_def vidx_def vset_def axes_def

lemmas aabb_defs = AABB_make_def GetMin_def GetMax_def GetExtents_def Expand_def

lemmas normal_defs = Normal_def Normal_axis_def axis_vector_def GetNormalize_def FLT_MAX_def

lemmas slab_defs = slab_axis_def Min_f_def Max_f_def

lemma sqrt_400: "sqrt 400 = 20"
  by (rule real_sqrt_unique) simp_all

lemma sqrt_9_4: "sqrt (9 / 4) = 3 / 2"
  by (rule real_sqrt_unique) (simp_all add: power2_eq_square)

lemma vhalf_eq: "vhalf v = Vec (m_x v / 2) (m_y v / 2) (m_z v / 2)"
  by (simp add: vhalf_def vdivs_def)

lemma Rotate_mul_total:
  "Matrix_mul_Vector3 (Rotate q) v =
     Some (Vec (m00 (Rotate q) * m_x v + m01 (Rotate q) * m_y v + m02 (Rotate q) * m_z v)
               (m10 (Rotate q) * m_x v + m11 (Rotate q) * m_y v + m12 (Rotate q) * m_z v)
               (m20 (Rotate q) * m_x v + m21 (Rotate q) * m_y v + m22 (Rotate q) * m_z v))"
  by (simp add: Matrix_mul_Vector3_def Rotate_def vdivs_def Vec_def Let_def)

lemma vsub_vadd_cancel: "vsub (vadd p w) p = w"
  by (simp add: vsub_def vadd_def Vec_def)

section \<open>Ray and segment as the same probe\<close>

text \<open>
  For the other targets the two testers are the same function of the same probe: the
  segment's vector \<open>(o + u * d) - o\<close> is the ray's \<open>u * d\<close>, and the bodies coincide.
\<close>

lemma ray_segment_agree:
  fixes rc :: Raycast
  defines "sg \<equiv> \<lparr>m_ptA = r_origin rc,
                    m_ptB = vadd (r_origin rc) (vmul (r_direction rc) (r_maxDistance rc))\<rparr>"
  shows "Raycast_IsIntersecting_Plane rc pl h = Segment_IsIntersecting_Plane sg pl h"
    and "Raycast_IsIntersecting_Sphere rc sp h = Segment_IsIntersecting_Sphere sg sp h"
    and "Raycast_IsIntersecting_InfiniteCylinder rc ic h =
         Segment_IsIntersecting_InfiniteCylinder sg ic h"
    and "Raycast_IsIntersecting_Cylinder rc cy h = Segment_IsIntersecting_Cylinder sg cy h"
    and "Raycast_IsIntersecting_Capsule rc ca h = Segment_IsIntersecting_Capsule sg ca h"
proof -
  have a: "m_ptA sg = r_origin rc"
    by (simp add: sg_def)
  have b: "m_ptB sg = vadd (r_origin rc) (vmul (r_direction rc) (r_maxDistance rc))"
    by (simp add: sg_def)
  have v: "vsub (m_ptB sg) (r_origin rc) = vmul (r_direction rc) (r_maxDistance rc)"
    by (simp add: sg_def vsub_vadd_cancel)
  show pl: "\<And>pl h. Raycast_IsIntersecting_Plane rc pl h = Segment_IsIntersecting_Plane sg pl h"
    by (simp only: Raycast_IsIntersecting_Plane_def Segment_IsIntersecting_Plane_def v a)
  show sp: "\<And>sp h. Raycast_IsIntersecting_Sphere rc sp h = Segment_IsIntersecting_Sphere sg sp h"
    by (simp only: Raycast_IsIntersecting_Sphere_def Segment_IsIntersecting_Sphere_def v a)
  show ic: "\<And>ic h. Raycast_IsIntersecting_InfiniteCylinder rc ic h =
                    Segment_IsIntersecting_InfiniteCylinder sg ic h"
    by (simp only: Raycast_IsIntersecting_InfiniteCylinder_def
        Segment_IsIntersecting_InfiniteCylinder_def v a)
  show cy: "\<And>cy h. Raycast_IsIntersecting_Cylinder rc cy h = Segment_IsIntersecting_Cylinder sg cy h"
    by (simp only: Raycast_IsIntersecting_Cylinder_def Segment_IsIntersecting_Cylinder_def
        pl ic a b Let_def)
  show "Raycast_IsIntersecting_Capsule rc ca h = Segment_IsIntersecting_Capsule sg ca h"
    by (simp only: Raycast_IsIntersecting_Capsule_def Segment_IsIntersecting_Capsule_def sp cy a)
qed

text \<open>
  Claim C1. A ray \<open>(o, u, d)\<close> and the segment from \<open>o\<close> to \<open>o + u * d\<close> are the same
  probe and should report the same hit. On the code they do not for an AABB: the ray of
  origin \<open>(0, 0, -5)\<close>, direction \<open>(0, 0, 1)\<close> and length 10 enters the box of centre 0 and
  size 2 at parameter \<open>2/5\<close>; the segment reports the entry point \<open>(0, 0, -1)\<close> with normal
  \<open>(0, 0, -1)\<close>, the ray reports \<open>o + u * (2/5) = (0, 0, -23/5)\<close>, a point outside the box,
  with the zero normal, because \<^verbatim>\<open>Raycast::IsIntersecting(const AABB&, ...)\<close> scales
  \<^verbatim>\<open>m_direction\<close> by \<open>tmin\<close> without \<^verbatim>\<open>m_maxDistance\<close>.
\<close>

theorem ray_segment_AABB_disagree:
  "Segment_IsIntersecting_AABB
     \<lparr>m_ptA = Vec 0 0 (- 5), m_ptB = vadd (Vec 0 0 (- 5)) (vmul (Vec 0 0 1) 10)\<rparr>
     (AABB_make (Vec 0 0 0) (Vec 2 2 2)) h
   = (True, h\<lparr>m_impact := Vec 0 0 (- 1), m_normal := Vec 0 0 (- 1)\<rparr>)
   \<and> Raycast_IsIntersecting_AABB
     \<lparr>r_origin = Vec 0 0 (- 5), r_direction = Vec 0 0 1, r_maxDistance = 10\<rparr>
     (AABB_make (Vec 0 0 0) (Vec 2 2 2)) h
   = (True, h\<lparr>m_impact := Vec 0 0 (- 23 / 5), m_normal := Vec 0 0 0\<rparr>)"
  by (simp add: Segment_IsIntersecting_AABB_def Raycast_IsIntersecting_AABB_def GetAB_def
      slab_defs aabb_defs vec_defs normal_defs Let_def)

section \<open>Ray against a sphere\<close>

text \<open>
  Claim C2. The ray of origin \<open>(0, 0, -5)\<close>, direction \<open>(0, 0, 1)\<close> and length 10 meets the
  unit sphere at the origin at parameter \<open>2/5\<close>, the point \<open>(0, 0, -1)\<close>, which lies on the
  sphere. The code reports no hit and leaves the record alone: its linear coefficient is
  \<open>2 * dot(centre - origin, ray)\<close>, the opposite of the coefficient of
  \<open>|probe(t) - centre|\<^sup>2 = radius\<^sup>2\<close>, so the root it takes is \<open>-3/5\<close>.
\<close>

theorem ray_sphere_scenario_missed:
  "Raycast_IsIntersecting_Sphere
     \<lparr>r_origin = Vec 0 0 (- 5), r_direction = Vec 0 0 1, r_maxDistance = 10\<rparr>
     \<lparr>s_origin = Vec 0 0 0, s_radius = 1\<rparr> h = (False, h)
   \<and> vadd (Vec 0 0 (- 5)) (vmul (vmul (Vec 0 0 1) 10) (2 / 5)) = Vec 0 0 (- 1)
   \<and> DistanceSqr (Vec 0 0 (- 1)) (Vec 0 0 0) = 1 * 1"
  by (simp add: Raycast_IsIntersecting_Sphere_def vec_defs Let_def sqrt_400)

section \<open>Swept sphere: the face-region scenario\<close>

text \<open>
  Claim C3, as the spec states it: the sphere of radius \<open>1/2\<close> at the origin, swept by
  \<open>(5, 0, 0)\<close> against the box of centre \<open>(3, 0, 0)\<close> and size 2, is reported as a hit in
  the face region with impact \<open>x\<close> about \<open>1.5\<close>. The reported \<open>x\<close> is 2: the face branch
  replaces the impact by the closest point of the unexpanded box.
\<close>

theorem swept_face_impact_not_at_centre_position:
  "m_x (m_impact (snd (IsMovingSphereColliding \<lparr>s_origin = Vec 0 0 0, s_radius = 1 / 2\<rparr>
          (AABB_make (Vec 3 0 0) (Vec 2 2 2)) (Vec 5 0 0) Intersection_default))) = 2
   \<and> \<not> \<bar>m_x (m_impact (snd (IsMovingSphereColliding \<lparr>s_origin = Vec 0 0 0, s_radius = 1 / 2\<rparr>
          (AABB_make (Vec 3 0 0) (Vec 2 2 2)) (Vec 5 0 0) Intersection_default))) - 3 / 2\<bar> < 1 / 2"
  by (simp add: IsMovingSphereColliding_def Segment_IsIntersecting_AABB_def GetAB_def
      slab_defs aabb_defs vec_defs normal_defs Let_def region_u_def region_v_def
      ClosestPoint_def ClosestPoint_axis_def sqrt_9_4 Intersection_default_def)

text \<open>
  Claim C3, amended: in that scenario the travel segment enters the expanded box at
  \<open>(3/2, 0, 0)\<close> with normal \<open>(-1, 0, 0)\<close>; against the original box only the below-minimum
  bit of the \<open>x\<close> axis is set (\<open>u = 1\<close>, \<open>v = 0\<close>), which is the face region; the call
  returns true and reports the raw impact snapped to the box, \<open>(2, 0, 0)\<close>, the point of
  the face \<open>x = 2\<close>, with the raw normal.
\<close>

theorem swept_face_scenario:
  "Segment_IsIntersecting_AABB \<lparr>m_ptA = Vec 0 0 0, m_ptB = vadd (Vec 0 0 0) (Vec 5 0 0)\<rparr>
     (Expand (AABB_make (Vec 3 0 0) (Vec 2 2 2)) (1 / 2)) h
   = (True, h\<lparr>m_impact := Vec (3 / 2) 0 0, m_normal := Vec (- 1) 0 0\<rparr>)
   \<and> region_u (AABB_make (Vec 3 0 0) (Vec 2 2 2)) (Vec (3 / 2) 0 0) = 1
   \<and> region_v (AABB_make (Vec 3 0 0) (Vec 2 2 2)) (Vec (3 / 2) 0 0) = 0
   \<and> IsMovingSphereColliding \<lparr>s_origin = Vec 0 0 0, s_radius = 1 / 2\<rparr>
        (AABB_make (Vec 3 0 0) (Vec 2 2 2)) (Vec 5 0 0) h
      = (True, h\<lparr>m_impact := Vec 2 0 0, m_normal := Vec (- 1) 0 0\<rparr>)"
  by (simp add: IsMovingSphereColliding_def Segment_IsIntersecting_AABB_def GetAB_def
      slab_defs aabb_defs vec_defs normal_defs Let_def region_u_def region_v_def
      ClosestPoint_def ClosestPoint_axis_def sqrt_9_4)

section \<open>AABB against AABB\<close>

text \<open>
  Claim C4. Two boxes of half-extent 1 whose centres are 10 apart along \<open>x\<close> are separated
  on the \<open>x\<close> axis (\<open>|0 - 10| > 1 + 1\<close>), and the code reports a collision: it compares
  the signed difference of the origins, and asks for all three axes at once.
\<close>

theorem AABB_separated_reported_colliding:
  "AABB_IsColliding (AABB_make (Vec 0 0 0) (Vec 2 2 2)) (AABB_make (Vec 10 0 0) (Vec 2 2 2)) = True
   \<and> \<bar>m_x (a_origin (AABB_make (Vec 0 0 0) (Vec 2 2 2))) -
        m_x (a_origin (AABB_make (Vec 10 0 0) (Vec 2 2 2)))\<bar>
     > m_x (GetExtents (AABB_make (Vec 0 0 0) (Vec 2 2 2))) +
       m_x (GetExtents (AABB_make (Vec 10 0 0) (Vec 2 2 2)))"
  by (simp add: AABB_IsColliding_def aabb_defs vec_defs)

section \<open>Probe against a plane\<close>

text \<open>
  Claim C5. The plane through \<open>(0, 0, 1)\<close> with normal \<open>(0, 0, 1)\<close> is stored with distance
  \<open>-1\<close>. The probe from the origin to \<open>(0, 0, 2)\<close>, as a segment and as a ray, crosses it at
  parameter \<open>1/2\<close>: the point \<open>(0, 0, 1)\<close> is on the plane. The code computes
  \<open>t = distance - dot(origin, normal) / dot = -1\<close> and reports no hit.
\<close>

theorem plane_crossing_missed:
  "Segment_IsIntersecting_Plane \<lparr>m_ptA = Vec 0 0 0, m_ptB = Vec 0 0 2\<rparr>
     (Plane_from_point (Vec 0 0 1) (Vec 0 0 1)) h = (False, h)
   \<and> Raycast_IsIntersecting_Plane \<lparr>r_origin = Vec 0 0 0, r_direction = Vec 0 0 1, r_maxDistance = 2\<rparr>
     (Plane_from_point (Vec 0 0 1) (Vec 0 0 1)) h = (False, h)
   \<and> pl_distance (Plane_from_point (Vec 0 0 1) (Vec 0 0 1)) = - 1
   \<and> GetSide (Plane_from_point (Vec 0 0 1) (Vec 0 0 1))
        (vadd (Vec 0 0 0) (vmul (Vec 0 0 2) (1 / 2))) = 0"
  by (simp add: Segment_IsIntersecting_Plane_def Raycast_IsIntersecting_Plane_def
      Plane_from_point_def GetSide_def vec_defs Let_def)

section \<open>Swept sphere: a failing region branch\<close>

text \<open>
  The vertex branch resets the record before it returns false.
\<close>

lemma Reset_eq: "Reset h = \<lparr>m_impact = Vec 0 0 0, m_normal = Vec 0 0 0\<rparr>"
  by (simp add: Reset_def)

lemma swept_vertex_failure_resets:
  assumes "fst (Segment_IsIntersecting_AABB
                  \<lparr>m_ptA = s_origin sph, m_ptB = vadd (s_origin sph) p_speed\<rparr>
                  (Expand box (s_radius sph)) hit)"
    and "region_u box (m_impact (snd (Segment_IsIntersecting_AABB
            \<lparr>m_ptA = s_origin sph, m_ptB = vadd (s_origin sph) p_speed\<rparr>
            (Expand box (s_radius sph)) hit)))
         + region_v box (m_impact (snd (Segment_IsIntersecting_AABB
            \<lparr>m_ptA = s_origin sph, m_ptB = vadd (s_origin sph) p_speed\<rparr>
            (Expand box (s_radius sph)) hit))) = 7"
    and "\<not> fst (IsMovingSphereColliding sph box p_speed hit)"
  shows "snd (IsMovingSphereColliding sph box p_speed hit) =
         \<lparr>m_impact = Vec 0 0 0, m_normal = Vec 0 0 0\<rparr>"
  using assms
  by (simp add: IsMovingSphereColliding_def Let_def Reset_eq split: if_splits)

text \<open>
  An instance: the sphere of radius 1 at \<open>(-3, 9/5, 9/5)\<close>, swept by \<open>(2, 2, 2)\<close> against the
  box of centre 0 and size \<open>(2, 4, 4)\<close>, enters the expanded box at \<open>(-2, 14/5, 14/5)\<close>,
  outside the box on all three axes (\<open>u = 1\<close>, \<open>v = 6\<close>). None of the three candidate
  capsules is hit and the call returns false with the zero record.
\<close>

lemma sqrt_36: "sqrt 36 = 6"
  by (rule real_sqrt_unique) simp_all

lemma vertex_capsules:
  "Capsule_from_points (Vec (- 1) (- 2) (- 2)) (Vec 1 2 2) 1 =
     \<lparr>ca_origin = Vec (- 1) (- 2) (- 2), ca_direction = Vec (1 / 3) (2 / 3) (2 / 3), ca_height = 6, ca_radius = 1\<rparr>"
  "Capsule_from_points (Vec (- 1) (- 2) (- 2)) (Vec (- 1) (- 2) (- 2)) 1 =
     \<lparr>ca_origin = Vec (- 1) (- 2) (- 2), ca_direction = Vec 0 0 0, ca_height = 0, ca_radius = 1\<rparr>"
  by (simp_all add: Capsule_from_points_def Normalize_def vec_defs Let_def sqrt_36)

lemma vertex_diagonal_capsule_missed:
  "Segment_IsIntersecting_Capsule \<lparr>m_ptA = Vec (- 3) (9 / 5) (9 / 5), m_ptB = Vec (- 1) (19 / 5) (19 / 5)\<rparr>
     \<lparr>ca_origin = Vec (- 1) (- 2) (- 2), ca_direction = Vec (1 / 3) (2 / 3) (2 / 3), ca_height = 6, ca_radius = 1\<rparr> h
   = (False, h)"
  by (simp add: Segment_IsIntersecting_Capsule_def Segment_IsIntersecting_Sphere_def
      Segment_IsIntersecting_Cylinder_def Plane_from_point_def GetSide_def vec_defs Let_def)

lemma vertex_point_capsule_missed:
  "Segment_IsIntersecting_Capsule \<lparr>m_ptA = Vec (- 3) (9 / 5) (9 / 5), m_ptB = Vec (- 1) (19 / 5) (19 / 5)\<rparr>
     \<lparr>ca_origin = Vec (- 1) (- 2) (- 2), ca_direction = Vec 0 0 0, ca_height = 0, ca_radius = 1\<rparr> h
   = (False, h)"
  by (simp add: Segment_IsIntersecting_Capsule_def Segment_IsIntersecting_Sphere_def
      Segment_IsIntersecting_Cylinder_def Plane_from_point_def GetSide_def vec_defs Let_def)


lemma vertex_raw_hit:
  "Segment_IsIntersecting_AABB
     \<lparr>m_ptA = Vec (- 3) (9 / 5) (9 / 5), m_ptB = Vec (- 1) (19 / 5) (19 / 5)\<rparr>
     (Expand (AABB_make (Vec 0 0 0) (Vec 2 4 4)) 1) h
   = (True, h\<lparr>m_impact := Vec (- 2) (14 / 5) (14 / 5), m_normal := Vec (- 1) 0 0\<rparr>)"
  by (simp add: Segment_IsIntersecting_AABB_def GetAB_def slab_defs aabb_defs vec_defs
      normal_defs Let_def)

lemma vertex_region_codes:
  "region_u (AABB_make (Vec 0 0 0) (Vec 2 4 4)) (Vec (- 2) (14 / 5) (14 / 5)) = 1"
  "region_v (AABB_make (Vec 0 0 0) (Vec 2 4 4)) (Vec (- 2) (14 / 5) (14 / 5)) = 6"
  by (simp_all add: region_u_def region_v_def aabb_defs vec_defs Let_def)

lemma vertex_corners:
  "Corner (AABB_make (Vec 0 0 0) (Vec 2 4 4)) 6 = Vec (- 1) (- 2) (- 2)"
  "Corner (AABB_make (Vec 0 0 0) (Vec 2 4 4)) 7 = Vec 1 2 2"
  "Corner (AABB_make (Vec 0 0 0) (Vec 2 4 4)) 4 = Vec (- 1) (- 2) (- 2)"
  "Corner (AABB_make (Vec 0 0 0) (Vec 2 4 4)) 2 = Vec (- 1) (- 2) (- 2)"
  by (simp_all add: Corner_def aabb_defs vec_defs)

lemma far_point_eq: "vec_eq (Vec FLT_MAX FLT_MAX FLT_MAX) (Vec FLT_MAX FLT_MAX FLT_MAX)"
  by (simp add: vec_eq_def Vec_def DBL_EPSILON_def)

lemma vertex_target: "vadd (Vec (- 3) (9 / 5) (9 / 5)) (Vec 2 2 2) = Vec (- 1) (19 / 5) (19 / 5)"
  by (simp add: vec_defs)

lemma swept_vertex_failure_example:
  "IsMovingSphereColliding \<lparr>s_origin = Vec (- 3) (9 / 5) (9 / 5), s_radius = 1\<rparr>
        (AABB_make (Vec 0 0 0) (Vec 2 4 4)) (Vec 2 2 2) Intersection_default
      = (False, \<lparr>m_impact = Vec 0 0 0, m_normal = Vec 0 0 0\<rparr>)"
  unfolding IsMovingSphereColliding_def
  by (simp add: Let_def vertex_raw_hit vertex_region_codes vertex_corners vertex_capsules
      vertex_diagonal_capsule_missed vertex_point_capsule_missed vertex_candidate_def
      vertex_target far_point_eq Reset_def Intersection_default_def Zero_def)

text \<open>
  Claim C6. The sphere of radius 1 at \<open>(-3, 4/5, 0)\<close>, swept by \<open>(2, 2, 0)\<close> against the box
  of centre 0 and size 2, cuts the corner of the expanded box: it enters at
  \<open>(-2, 9/5, 0)\<close> with normal \<open>(-1, 0, 0)\<close>. Two bits are set (\<open>u = 1\<close>, \<open>v = 2\<close>), the edge
  region, whose result is the capsule test's. That test fails, the call returns false,
  and the record still holds the raw hit on the expanded box instead of the zero impact
  and zero normal.
\<close>

theorem swept_edge_failure_keeps_raw_hit:
  "Segment_IsIntersecting_AABB
     \<lparr>m_ptA = Vec (- 3) (4 / 5) 0, m_ptB = vadd (Vec (- 3) (4 / 5) 0) (Vec 2 2 0)\<rparr>
     (Expand (AABB_make (Vec 0 0 0) (Vec 2 2 2)) 1) Intersection_default
   = (True, \<lparr>m_impact = Vec (- 2) (9 / 5) 0, m_normal = Vec (- 1) 0 0\<rparr>)
   \<and> region_u (AABB_make (Vec 0 0 0) (Vec 2 2 2)) (Vec (- 2) (9 / 5) 0) = 1
   \<and> region_v (AABB_make (Vec 0 0 0) (Vec 2 2 2)) (Vec (- 2) (9 / 5) 0) = 2
   \<and> IsMovingSphereColliding \<lparr>s_origin = Vec (- 3) (4 / 5) 0, s_radius = 1\<rparr>
        (AABB_make (Vec 0 0 0) (Vec 2 2 2)) (Vec 2 2 0) Intersection_default
      = (False, \<lparr>m_impact = Vec (- 2) (9 / 5) 0, m_normal = Vec (- 1) 0 0\<rparr>)
   \<and> \<lparr>m_impact = Vec (- 2) (9 / 5) 0, m_normal = Vec (- 1) 0 0\<rparr> \<noteq> Intersection_default"
  by (simp add: IsMovingSphereColliding_def Segment_IsIntersecting_AABB_def GetAB_def
      slab_defs aabb_defs vec_defs normal_defs Let_def region_u_def region_v_def
      Corner_def Capsule_from_points_def Normalize_def Segment_IsIntersecting_Capsule_def
      Segment_IsIntersecting_Sphere_def Segment_IsIntersecting_Cylinder_def
      Plane_from_point_def GetSide_def Intersection_default_def)

section \<open>Range.SAT\<close>

text \<open>
  The loop computes the least and the greatest of the projections together with its
  initial values: the minimum is exact as long as a projection is at most \<open>FLT_MAX\<close>,
  the maximum as long as a projection is at least \<open>FLT_MIN\<close>.
\<close>

lemma Min_f_min: "Min_f a b = min a b"
  by (simp add: Min_f_def min_def)

lemma Max_f_max: "Max_f a b = max a b"
  by (simp add: Max_f_def max_def)

lemma SAT_fold_min_max:
  "rg_min (fold (SAT_step a) vs r) = Min (insert (rg_min r) (Dot a ` set vs)) \<and>
   rg_max (fold (SAT_step a) vs r) = Max (insert (rg_max r) (Dot a ` set vs))"
proof (induction vs arbitrary: r)
  case Nil
  then show ?case by simp
next
  case (Cons v vs)
  have mn: "Min (insert (min (rg_min r) (Dot a v)) (Dot a ` set vs)) =
            Min (insert (rg_min r) (insert (Dot a v) (Dot a ` set vs)))"
    by (cases "vs = []") (simp_all add: min.assoc)
  have mx: "Max (insert (max (rg_max r) (Dot a v)) (Dot a ` set vs)) =
            Max (insert (rg_max r) (insert (Dot a v) (Dot a ` set vs)))"
    by (cases "vs = []") (simp_all add: max.assoc)
  from Cons.IH[of "SAT_step a v r"] mn mx show ?case
    by (simp add: SAT_step_def Let_def Min_f_min Max_f_max)
qed

lemma SAT_min_max:
  "rg_min (SAT a b) = Min (insert FLT_MAX (Dot a ` set (OBB_GetVertices b))) \<and>
   rg_max (SAT a b) = Max (insert FLT_MIN (Dot a ` set (OBB_GetVertices b)))"
  using SAT_fold_min_max[of a "OBB_GetVertices b" "\<lparr>rg_min = FLT_MAX, rg_max = FLT_MIN\<rparr>"]
  by (simp add: SAT_def)

text \<open>
  Claim C7. For the axis \<open>(1, 0, 0)\<close> and the unrotated box of centre \<open>(-5, 0, 0)\<close> and
  extents 1, the eight projections are \<open>-6\<close> and \<open>-4\<close>, so the interval should be
  \<open>[-6, -4]\<close>. The code returns \<open>[-6, FLT_MIN]\<close>: the running maximum starts at
  \<^verbatim>\<open>__FLT_MIN__\<close>, the smallest positive normal float, and no negative projection
  replaces it.
\<close>

theorem SAT_negative_projections_wrong_max:
  "map (Dot (Vec 1 0 0))
     (OBB_GetVertices \<lparr>o_origin = Vec (- 5) 0 0, o_extents = Vec 1 1 1, o_angle = Vec 0 0 0\<rparr>)
   = [- 6, - 4, - 6, - 4, - 4, - 6, - 4, - 6]
   \<and> SAT (Vec 1 0 0) \<lparr>o_origin = Vec (- 5) 0 0, o_extents = Vec 1 1 1, o_angle = Vec 0 0 0\<rparr>
     = \<lparr>rg_min = - 6, rg_max = FLT_MIN\<rparr>
   \<and> - 4 < FLT_MIN"
  by (simp add: SAT_def SAT_step_def OBB_GetVertices_def rotate_by_def Matrix_mul_Vector3_def
      Rotate_def Euler_def ToRadians_def vec_defs Let_def Min_f_def Max_f_def FLT_MAX_def
      FLT_MIN_def)

section \<open>AABB.Corner\<close>

text \<open>Whatever the index, the corner is the maximum or the minimum corner.\<close>

lemma Corner_min_or_max: "Corner b n = (if n AND 1 \<noteq> 0 then a_max b else a_min b)"
  by (simp add: Corner_def Vec_def)

text \<open>
  Claim C8. For the box of centre 0 and size 2, corner 2 should take the maximum on \<open>y\<close>
  (bit 1) and the minimum on \<open>x\<close> and \<open>z\<close>: \<open>(-1, 1, -1)\<close>. The code tests bit 0 on all three
  axes and returns the minimum corner \<open>(-1, -1, -1)\<close>.
\<close>

theorem Corner_two_is_min_corner:
  "Corner (AABB_make (Vec 0 0 0) (Vec 2 2 2)) 2 = Vec (- 1) (- 1) (- 1)
   \<and> Vec (m_x (GetMin (AABB_make (Vec 0 0 0) (Vec 2 2 2))))
          (m_y (GetMax (AABB_make (Vec 0 0 0) (Vec 2 2 2))))
          (m_z (GetMin (AABB_make (Vec 0 0 0) (Vec 2 2 2)))) = Vec (- 1) 1 (- 1)"
  by (simp add: Corner_def aabb_defs vec_defs)

section \<open>Slab test: an entry parameter of zero\<close>

text \<open>
  When the origin of the probe lies between the minimum and the maximum of the box on an
  axis, one turn of the loop on that axis either rejects or leaves \<open>tmin = 0\<close> and keeps
  \<open>tmax\<close> non-negative.
\<close>

lemma slab_axis_inside:
  assumes "vidx (GetMin box) i \<le> vidx a i" and "vidx a i \<le> vidx (GetMax box) i" and "0 \<le> tmax"
  shows "slab_axis a b box i (0, tmax) = None \<or>
         (\<exists>tmax'. slab_axis a b box i (0, tmax) = Some (0, tmax') \<and> 0 \<le> tmax')"
proof (cases "vidx b i - vidx a i = 0")
  case True
  with assms show ?thesis by (simp add: slab_axis_def)
next
  case False
  define d where "d = vidx b i - vidx a i"
  define t1 where "t1 = (vidx (GetMin box) i - vidx a i) / d"
  define t2 where "t2 = (vidx (GetMax box) i - vidx a i) / d"
  define lo where "lo = (if t2 < t1 then t2 else t1)"
  define hi where "hi = (if t2 < t1 then t1 else t2)"
  have d: "d \<noteq> 0" using False by (simp add: d_def)
  have lohi: "lo \<le> 0 \<and> 0 \<le> hi"
  proof (cases "0 < d")
    case True
    with assms have "t1 \<le> 0" "0 \<le> t2"
      by (simp_all add: t1_def t2_def divide_le_0_iff zero_le_divide_iff)
    then show ?thesis by (simp add: lo_def hi_def)
  next
    case False
    with d have "d < 0" by simp
    with assms have "0 \<le> t1" "t2 \<le> 0"
      by (simp_all add: t1_def t2_def divide_le_0_iff zero_le_divide_iff)
    then show ?thesis by (auto simp add: lo_def hi_def)
  qed
  have mx: "Max_f 0 lo = 0" using lohi by (simp add: Max_f_def)
  have mn: "0 \<le> Min_f tmax hi" using lohi assms(3) by (simp add: Min_f_def)
  have "slab_axis a b box i (0, tmax) =
          (if hi < 0 \<or> lo > tmax then None
           else if Max_f 0 lo > Min_f tmax hi then None
           else Some (Max_f 0 lo, Min_f tmax hi))"
    using d by (simp add: slab_axis_def Let_def d_def t1_def t2_def lo_def hi_def)
  with mx mn show ?thesis by auto
qed

lemma slab_loop_inside:
  assumes "list_all (\<lambda>i. vidx (GetMin box) i \<le> vidx a i \<and> vidx a i \<le> vidx (GetMax box) i) idxs" and "0 \<le> tmax"
  shows "slab_loop a b box idxs (0, tmax) = None \<or>
         (\<exists>tmax'. slab_loop a b box idxs (0, tmax) = Some (0, tmax'))"
  using assms
proof (induction idxs arbitrary: tmax)
  case Nil
  then show ?case by simp
next
  case (Cons i rest)
  from Cons.prems have i: "vidx (GetMin box) i \<le> vidx a i" "vidx a i \<le> vidx (GetMax box) i"
    and rest: "list_all (\<lambda>i. vidx (GetMin box) i \<le> vidx a i \<and> vidx a i \<le> vidx (GetMax box) i) rest"
    by simp_all
  from slab_axis_inside[OF i Cons.prems(2), of b]
  show ?case
  proof
    assume "slab_axis a b box i (0, tmax) = None"
    then show ?thesis by simp
  next
    assume "\<exists>tmax'. slab_axis a b box i (0, tmax) = Some (0, tmax') \<and> 0 \<le> tmax'"
    then obtain t where t: "slab_axis a b box i (0, tmax) = Some (0, t)" "0 \<le> t" by blast
    from Cons.IH[OF rest t(2)] t(1) show ?thesis by simp
  qed
qed

lemma Contains_slabs:
  "Contains box p \<Longrightarrow> list_all (\<lambda>i. vidx (GetMin box) i \<le> vidx p i \<and> vidx p i \<le> vidx (GetMax box) i) axes"
  by (simp add: Contains_def axes_def vidx_def GetMin_def GetMax_def)

lemma slab_loop_Contains:
  assumes "Contains box a"
  shows "slab_loop a b box axes (0, 1) = None \<or> (\<exists>tmax. slab_loop a b box axes (0, 1) = Some (0, tmax))"
  using slab_loop_inside[OF Contains_slabs[OF assms], of 1 b] by simp

text \<open>
  Claim C9. For a segment and for a ray, when the slab loop ends with \<open>tmin = 0\<close> the test
  returns false and leaves the record alone. In particular this is the result whenever
  the origin of the probe is in the closed box (inside or on its surface): the loop then
  rejects early or ends with \<open>tmin = 0\<close>.
\<close>

theorem slab_tmin_zero_is_a_miss:
  "(slab_loop (m_ptA sg) (m_ptB sg) box axes (0, 1) = Some (0, tmax) \<longrightarrow>
      Segment_IsIntersecting_AABB sg box hit = (False, hit))
   \<and> (slab_loop (r_origin rc) (vadd (r_origin rc) (vmul (r_direction rc) (r_maxDistance rc))) box axes (0, 1)
        = Some (0, tmax') \<longrightarrow>
      Raycast_IsIntersecting_AABB rc box hit = (False, hit))
   \<and> (Contains box (m_ptA sg) \<longrightarrow> Segment_IsIntersecting_AABB sg box hit = (False, hit))
   \<and> (Contains box (r_origin rc) \<longrightarrow> Raycast_IsIntersecting_AABB rc box hit = (False, hit))"
proof (intro conjI impI)
  assume "slab_loop (m_ptA sg) (m_ptB sg) box axes (0, 1) = Some (0, tmax)"
  then show "Segment_IsIntersecting_AABB sg box hit = (False, hit)"
    by (simp add: Segment_IsIntersecting_AABB_def)
next
  assume "slab_loop (r_origin rc) (vadd (r_origin rc) (vmul (r_direction rc) (r_maxDistance rc))) box axes (0, 1)
        = Some (0, tmax')"
  then show "Raycast_IsIntersecting_AABB rc box hit = (False, hit)"
    by (simp add: Raycast_IsIntersecting_AABB_def Let_def)
next
  assume "Contains box (m_ptA sg)"
  from slab_loop_Contains[OF this, of "m_ptB sg"]
  show "Segment_IsIntersecting_AABB sg box hit = (False, hit)"
    by (auto simp add: Segment_IsIntersecting_AABB_def)
next
  assume "Contains box (r_origin rc)"
  from slab_loop_Contains[OF this, of "vadd (r_origin rc) (vmul (r_direction rc) (r_maxDistance rc))"]
  show "Raycast_IsIntersecting_AABB rc box hit = (False, hit)"
    by (auto simp add: Raycast_IsIntersecting_AABB_def Let_def)
qed

text \<open>
  The probe from the centre of the box of size 2 to \<open>(5, 0, 0)\<close>: the loop ends with
  \<open>(0, 1/5)\<close>, the origin is in the box, and both testers return false.
\<close>

theorem slab_tmin_zero_is_a_miss_witness:
  "slab_loop (Vec 0 0 0) (Vec 5 0 0) (AABB_make (Vec 0 0 0) (Vec 2 2 2)) axes (0, 1) = Some (0, 1 / 5)
   \<and> Contains (AABB_make (Vec 0 0 0) (Vec 2 2 2)) (Vec 0 0 0)
   \<and> Segment_IsIntersecting_AABB \<lparr>m_ptA = Vec 0 0 0, m_ptB = Vec 5 0 0\<rparr>
        (AABB_make (Vec 0 0 0) (Vec 2 2 2)) Intersection_default = (False, Intersection_default)
   \<and> Raycast_IsIntersecting_AABB \<lparr>r_origin = Vec 0 0 0, r_direction = Vec 1 0 0, r_maxDistance = 5\<rparr>
        (AABB_make (Vec 0 0 0) (Vec 2 2 2)) Intersection_default = (False, Intersection_default)"
proof -
  have h1: "slab_loop (Vec 0 0 0) (Vec 5 0 0) (AABB_make (Vec 0 0 0) (Vec 2 2 2)) axes (0, 1) = Some (0, 1 / 5)"
    by (simp add: slab_defs aabb_defs vec_defs Let_def)
  have h2: "Contains (AABB_make (Vec 0 0 0) (Vec 2 2 2)) (Vec 0 0 0)"
    by (simp add: Contains_def aabb_defs vec_defs)
  have h3: "vadd (Vec 0 0 0) (vmul (Vec 1 0 0) 5) = Vec 5 0 0"
    by (simp add: vec_defs)
  show ?thesis
    using h1 h2 h3
      slab_tmin_zero_is_a_miss[of "\<lparr>m_ptA = Vec 0 0 0, m_ptB = Vec 5 0 0\<rparr>" "AABB_make (Vec 0 0 0) (Vec 2 2 2)" "1 / 5"
            Intersection_default
            "\<lparr>r_origin = Vec 0 0 0, r_direction = Vec 1 0 0, r_maxDistance = 5\<rparr>" "1 / 5"]
    by simp
qed


section \<open>A false return with a modified record\<close>

text \<open>
  Claim C10. A false return does not mean the record is as the caller passed it. The
  probe from \<open>(5, 3, 2)\<close> to \<open>(4, 3, 0)\<close> starts beyond the upper cap of the cylinder of
  centre 0, axis \<open>z\<close>, height 2 and radius 1. The cap's plane test succeeds and writes
  impact \<open>(5, 3, 2)\<close> and normal \<open>(0, 0, 1)\<close>; the impact is outside the disc; the lateral
  test then fails, and the cylinder test returns false with the plane test's values in
  the record. The same happens for the ray, and for the capsule with the same axis, whose
  body is that cylinder.
\<close>

theorem false_return_leaves_sub_test_values:
  "Segment_IsIntersecting_Cylinder \<lparr>m_ptA = Vec 5 3 2, m_ptB = Vec 4 3 0\<rparr>
     \<lparr>cy_origin = Vec 0 0 0, cy_direction = Vec 0 0 1, cy_height = 2, cy_radius = 1\<rparr>
     Intersection_default
   = (False, \<lparr>m_impact = Vec 5 3 2, m_normal = Vec 0 0 1\<rparr>)
   \<and> Raycast_IsIntersecting_Cylinder
     \<lparr>r_origin = Vec 5 3 2, r_direction = Vec (- 1) 0 (- 2), r_maxDistance = 1\<rparr>
     \<lparr>cy_origin = Vec 0 0 0, cy_direction = Vec 0 0 1, cy_height = 2, cy_radius = 1\<rparr>
     Intersection_default
   = (False, \<lparr>m_impact = Vec 5 3 2, m_normal = Vec 0 0 1\<rparr>)
   \<and> Segment_IsIntersecting_Capsule \<lparr>m_ptA = Vec 5 3 2, m_ptB = Vec 4 3 0\<rparr>
     \<lparr>ca_origin = Vec 0 0 0, ca_direction = Vec 0 0 1, ca_height = 2, ca_radius = 1\<rparr>
     Intersection_default
   = (False, \<lparr>m_impact = Vec 5 3 2, m_normal = Vec 0 0 1\<rparr>)
   \<and> \<lparr>m_impact = Vec 5 3 2, m_normal = Vec 0 0 1\<rparr> \<noteq> Intersection_default"
  by (simp add: Segment_IsIntersecting_Cylinder_def Raycast_IsIntersecting_Cylinder_def
      Segment_IsIntersecting_Capsule_def Segment_IsIntersecting_Sphere_def
      Segment_IsIntersecting_Plane_def Raycast_IsIntersecting_Plane_def
      Segment_IsIntersecting_InfiniteCylinder_def Raycast_IsIntersecting_InfiniteCylinder_def
      cap_branch_def Plane_from_point_def GetSide_def vec_defs Let_def
      Intersection_default_def)

end
